theory Spec2Isabelle
  imports Main
begin

section \<open>Data model of the authentication controller\<close>

text \<open>
  The theory embeds \<^verbatim>\<open>src/Controllers/authController.js\<close>. Every handler of
  that file is the body of an \<^verbatim>\<open>async\<close> function handed to \<^verbatim>\<open>catchAsync\<close>;
  a handler ends in exactly one of four ways, which the type \<open>outcome\<close> lists:
  it writes a response, it calls \<^verbatim>\<open>next(new AppError(msg, code))\<close>, it calls
  \<^verbatim>\<open>next()\<close> (only \<^verbatim>\<open>protect\<close> and \<^verbatim>\<open>restrictTo\<close>), or an awaited
  collaborator throws and the body rejects with that library error.

  Timestamps are instants on one integer scale. \<^verbatim>\<open>Date.now()\<close> is read once per
  request and passed in as \<open>now\<close>.
\<close>

type_synonym object_id = nat

text \<open>A user document as the handlers see it. A field that is \<^verbatim>\<open>undefined\<close> is \<open>None\<close>.\<close>

record user =
  user_id :: object_id
  name :: "string option"
  email :: "string option"
  role :: "string option"
  password :: "string option"
  confirmPassword :: "string option"
  passwordChangedAt :: int
  passwordResetToken :: "string option"
  passwordResetExpires :: "int option"

text \<open>The user collection in its natural order; \<^verbatim>\<open>findOne\<close> returns the first match.\<close>

type_synonym store = "user list"

text \<open>\<^verbatim>\<open>new AppError(message, statusCode)\<close>.\<close>

datatype app_error = AppError (message: string) (statusCode: nat)

text \<open>Errors thrown by the libraries and collaborators the handlers await.\<close>

datatype thrown =
    JsonWebTokenError
  | TokenExpiredError
  | ValidationError
  | DuplicateKeyError
  | TypeError

text \<open>The payload \<^verbatim>\<open>jwt.verify\<close> decodes: \<^verbatim>\<open>decoder.id\<close> and \<^verbatim>\<open>decoder.iat\<close>.\<close>

record decoded =
  dec_id :: object_id
  iat :: int

text \<open>The argument of \<^verbatim>\<open>sendMail\<close>.\<close>

record mail =
  mail_email :: "string option"
  subject :: string
  responseMessage :: string

text \<open>\<^verbatim>\<open>process.env\<close>, the four variables the controller reads.\<close>

record env =
  JWT_SECRET :: string
  JWT_EXPIRES_IN :: string
  JWT_COOKIE_EXPIRES_IN :: int
  NODE_ENV :: string

text \<open>
  The libraries and the parts of the User model that the controller calls and that are
  not among the sources, taken as parameters:
  \<^item> \<open>jwt_sign id secret expiresIn now\<close> is \<^verbatim>\<open>jwt.sign({ id }, secret, { expiresIn })\<close>;
  \<^item> \<open>jwt_verify token secret now\<close> is \<^verbatim>\<open>promisify(jwt.verify)(token, secret)\<close>,
    which throws or yields the decoded payload;
  \<^item> \<open>sha256_hex\<close> is \<^verbatim>\<open>crypto.createHash("sha256").update(s).digest("hex")\<close>;
  \<^item> \<open>correctPassword candidate stored\<close> is the model method of that name;
  \<^item> \<open>hashCredential\<close> is the password hash of the model's save hook;
  \<^item> \<open>validate\<close> is the schema validation run by \<^verbatim>\<open>create\<close> and \<^verbatim>\<open>save\<close>;
  \<^item> \<open>sendMail\<close> is true when the mail was sent and false when the call throws.
\<close>

record collab =
  jwt_sign :: "object_id \<Rightarrow> string \<Rightarrow> string \<Rightarrow> int \<Rightarrow> string"
  jwt_verify :: "string \<Rightarrow> string \<Rightarrow> int \<Rightarrow> thrown + decoded"
  sha256_hex :: "string \<Rightarrow> string"
  correctPassword :: "string option \<Rightarrow> string option \<Rightarrow> bool"
  hashCredential :: "string \<Rightarrow> string"
  validate :: "user \<Rightarrow> bool"
  sendMail :: "mail \<Rightarrow> bool"

text \<open>The parts of the request the handlers read, and \<^verbatim>\<open>req.user\<close>, which \<^verbatim>\<open>protect\<close> writes.\<close>

record request =
  body_name :: "string option"
  body_email :: "string option"
  body_password :: "string option"
  body_confirmPassword :: "string option"
  body_role :: "string option"
  body_currentPassword :: "string option"
  authorization :: "string option"
  param_token :: string
  protocol :: string
  host :: "string option"
  req_user :: "user option"

text \<open>The options and value of \<^verbatim>\<open>res.cookie("jwt", token, cookieOptions)\<close>.\<close>

record cookie =
  cookie_name :: string
  cookie_value :: string
  expires :: int
  httpOnly :: bool
  secure :: bool

text \<open>
  What a handler writes to \<^verbatim>\<open>res\<close>: the status, the cookie and the JSON body.
  \<^verbatim>\<open>JSON.stringify\<close> leaves out a field that is \<^verbatim>\<open>undefined\<close>, so a \<open>None\<close>
  field of \<open>json_user\<close> is absent from the serialised body.
\<close>

record response =
  res_status :: nat
  res_cookie :: "cookie option"
  json_status :: string
  json_token :: "string option"
  json_message :: "string option"
  json_user :: "user option"

datatype outcome =
    Sent response
  | NextError app_error
  | NextOk request
  | Rejected thrown

section \<open>JavaScript helpers\<close>

text \<open>\<^verbatim>\<open>!v\<close> for a value that is a string or \<^verbatim>\<open>undefined\<close>.\<close>

definition falsy :: "string option \<Rightarrow> bool" where
  "falsy v = (case v of None \<Rightarrow> True | Some s \<Rightarrow> s = [])"

text \<open>\<^verbatim>\<open>s.startsWith(p)\<close>.\<close>

definition startsWith :: "string \<Rightarrow> string \<Rightarrow> bool" where
  "startsWith s p = (take (length p) s = p)"

text \<open>\<^verbatim>\<open>s.split(d)\<close> for a separator of one character.\<close>

fun js_split :: "char \<Rightarrow> string \<Rightarrow> string list" where
  "js_split d [] = [[]]"
| "js_split d (c # cs) =
     (if c = d then [] # js_split d cs
      else (case js_split d cs of [] \<Rightarrow> [[c]] | w # ws \<Rightarrow> (c # w) # ws))"

text \<open>\<^verbatim>\<open>xs[i]\<close>: \<^verbatim>\<open>undefined\<close> out of range.\<close>

definition at_index :: "'a list \<Rightarrow> nat \<Rightarrow> 'a option" where
  "at_index xs i = (if i < length xs then Some (xs ! i) else None)"

section \<open>The User model, as far as the controller uses it\<close>

text \<open>
  Modelled from the spec: \<^verbatim>\<open>User.findOne({ email })\<close> of the external user store
  (\<open>findByEmail(email)\<close>), the first document with that email; a query for an
  \<^verbatim>\<open>undefined\<close> email finds nothing.
\<close>

definition findOne_email :: "store \<Rightarrow> string option \<Rightarrow> user option" where
  "findOne_email s e =
     (case e of None \<Rightarrow> None | Some a \<Rightarrow> find (\<lambda>u. email u = Some a) s)"

text \<open>
  Modelled from the spec: \<^verbatim>\<open>User.findById(id)\<close> of the external user store.
\<close>

definition findById :: "store \<Rightarrow> object_id \<Rightarrow> user option" where
  "findById s i = find (\<lambda>u. user_id u = i) s"

text \<open>
  \<^verbatim>\<open>User.findOne({ passwordResetToken: h, passwordResetExpires: { $gt: now } })\<close>,
  lines 198-201: one query with both conditions; a document without the field does
  not match.
\<close>

definition resetMatch :: "string \<Rightarrow> int \<Rightarrow> user \<Rightarrow> bool" where
  "resetMatch h now u =
     (passwordResetToken u = Some h \<and>
      (case passwordResetExpires u of None \<Rightarrow> False | Some x \<Rightarrow> now < x))"

definition findOne_reset :: "store \<Rightarrow> string \<Rightarrow> int \<Rightarrow> user option" where
  "findOne_reset s h now = find (resetMatch h now) s"

text \<open>
  Modelled from the spec: the model method \<^verbatim>\<open>changedPasswordAfter\<close>
  (\<open>changedAfter(identity, issuedAt)\<close>): true if the identity's credential-changed
  timestamp is later than the issuance timestamp.
\<close>

definition changedPasswordAfter :: "user \<Rightarrow> int \<Rightarrow> bool" where
  "changedPasswordAfter u issuedAt = (issuedAt < passwordChangedAt u)"

text \<open>
  Modelled from the spec: the model method \<^verbatim>\<open>createPasswordResetToken\<close>
  (\<open>issueResetToken\<close> and the expiry the caller tracks): the digest of the freshly
  generated plaintext \<open>rnd\<close> and the expiry, now + 10 minutes, are written to the
  document; the plaintext is returned.
\<close>

definition createPasswordResetToken :: "collab \<Rightarrow> int \<Rightarrow> string \<Rightarrow> user \<Rightarrow> string \<times> user" where
  "createPasswordResetToken c now rnd u =
     (rnd, u\<lparr>passwordResetToken := Some (sha256_hex c rnd),
             passwordResetExpires := Some (now + 10 * 60 * 1000)\<rparr>)"

text \<open>
  Modelled from the spec: \<^verbatim>\<open>user.save(options)\<close> of the external user store
  (\<open>save(identity, {validate: bool})\<close>). With validation on, a document that fails the
  schema validation is refused. When the handler has assigned the password
  (\<open>pwModified\<close>), the credential is hashed before storage and the credential-changed
  timestamp is updated. The document replaces the stored one of the same id. The result
  is the document as it is after the save, and the new collection.
\<close>

definition save :: "collab \<Rightarrow> int \<Rightarrow> bool \<Rightarrow> bool \<Rightarrow> user \<Rightarrow> store \<Rightarrow> thrown + (user \<times> store)" where
  "save c now validateBeforeSave pwModified u s =
     (if validateBeforeSave \<and> \<not> validate c u then Inl ValidationError
      else (let u' = (if pwModified
                      then u\<lparr>password := map_option (hashCredential c) (password u),
                             passwordChangedAt := now\<rparr>
                      else u)
            in Inr (u', map (\<lambda>v. if user_id v = user_id u' then u' else v) s)))"

text \<open>
  Modelled from the spec: \<^verbatim>\<open>User.create(fields)\<close> of the external user store
  (\<open>create(fields) \<rightarrow> identity\<close>): field validation, email uniqueness, the role default,
  the credential hashed before storage. \<open>newId\<close> is the identifier the store gives the
  new document.
\<close>

definition create :: "collab \<Rightarrow> int \<Rightarrow> object_id \<Rightarrow> request \<Rightarrow> store \<Rightarrow> thrown + (user \<times> store)" where
  "create c now newId req s =
     (let u = \<lparr>user_id = newId, name = body_name req, email = body_email req,
               role = (case body_role req of None \<Rightarrow> Some ''standard'' | Some r \<Rightarrow> Some r),
               password = body_password req, confirmPassword = body_confirmPassword req,
               passwordChangedAt = now, passwordResetToken = None,
               passwordResetExpires = None\<rparr>
      in if \<not> validate c u then Inl ValidationError
         else if list_ex (\<lambda>v. email v = email u) s then Inl DuplicateKeyError
         else (let u' = u\<lparr>password := map_option (hashCredential c) (password u)\<rparr>
               in Inr (u', s @ [u'])))"

section \<open>The controller\<close>

text \<open>\<^verbatim>\<open>signToken\<close>, lines 11-15.\<close>

definition signToken :: "collab \<Rightarrow> env \<Rightarrow> int \<Rightarrow> object_id \<Rightarrow> string" where
  "signToken c e now i = jwt_sign c i (JWT_SECRET e) (JWT_EXPIRES_IN e) now"

text \<open>\<^verbatim>\<open>createSignedToken\<close>, lines 19-46.\<close>

definition createSignedToken :: "collab \<Rightarrow> env \<Rightarrow> int \<Rightarrow> user \<Rightarrow> nat \<Rightarrow> response" where
  "createSignedToken c e now u code =
     (let token = signToken c e now (user_id u);
          cookieOptions = \<lparr>cookie_name = ''jwt'', cookie_value = token,
             expires = now + JWT_COOKIE_EXPIRES_IN e * 24 * 60 * 60 * 1000,
             httpOnly = True, secure = (NODE_ENV e = ''production'')\<rparr>
      in \<lparr>res_status = code, res_cookie = Some cookieOptions,
          json_status = ''success'', json_token = Some token,
          json_message = None, json_user = Some (u\<lparr>password := None\<rparr>)\<rparr>)"

text \<open>\<^verbatim>\<open>login\<close>, lines 65-78.\<close>

definition login :: "collab \<Rightarrow> env \<Rightarrow> int \<Rightarrow> store \<Rightarrow> request \<Rightarrow> outcome" where
  "login c e now s req =
     (if falsy (body_email req) \<or> falsy (body_password req)
      then NextError (AppError ''Enter both password and email'' 400)
      else (case findOne_email s (body_email req) of
              None \<Rightarrow> NextError (AppError '' Incorrect email or password'' 401)
            | Some u \<Rightarrow>
                if \<not> correctPassword c (body_password req) (password u)
                then NextError (AppError '' Incorrect email or password'' 401)
                else Sent (createSignedToken c e now u 200)))"

text \<open>\<^verbatim>\<open>signup\<close>, lines 49-61.\<close>

definition signup :: "collab \<Rightarrow> env \<Rightarrow> int \<Rightarrow> object_id \<Rightarrow> store \<Rightarrow> request \<Rightarrow> store \<times> outcome" where
  "signup c e now newId s req =
     (case create c now newId req s of
        Inl err \<Rightarrow> (s, Rejected err)
      | Inr (newUser, s') \<Rightarrow> (s', Sent (createSignedToken c e now newUser 201)))"

text \<open>The token \<^verbatim>\<open>protect\<close> reads from the authorization header, lines 83-90.\<close>

definition bearerToken :: "request \<Rightarrow> string option" where
  "bearerToken req =
     (case authorization req of
        None \<Rightarrow> None
      | Some a \<Rightarrow>
          if a \<noteq> [] \<and> startsWith a ''Bearer''
          then at_index (js_split CHR '' '' a) 1
          else None)"

text \<open>\<^verbatim>\<open>protect\<close>, lines 81-122.\<close>

definition protect :: "collab \<Rightarrow> env \<Rightarrow> int \<Rightarrow> store \<Rightarrow> request \<Rightarrow> outcome" where
  "protect c e now s req =
     (case bearerToken req of
        None \<Rightarrow> NextError (AppError ''You are not logged in. Confirm Passwords are the same'' 401)
      | Some token \<Rightarrow>
          if token = []
          then NextError (AppError ''You are not logged in. Confirm Passwords are the same'' 401)
          else (case jwt_verify c token (JWT_SECRET e) now of
                  Inl err \<Rightarrow> Rejected err
                | Inr decoder \<Rightarrow>
                    (case findById s (dec_id decoder) of
                       None \<Rightarrow> NextError (AppError ''The user by this ID no longer exists'' 401)
                     | Some decodedCurrentUserId \<Rightarrow>
                         if changedPasswordAfter decodedCurrentUserId (iat decoder)
                         then NextError (AppError ''The user changed his/her ID recently!'' 401)
                         else NextOk (req\<lparr>req_user := Some decodedCurrentUserId\<rparr>))))"

text \<open>\<^verbatim>\<open>restrictTo\<close>, lines 126-135.\<close>

definition restrictTo :: "string option list \<Rightarrow> request \<Rightarrow> outcome" where
  "restrictTo roles req =
     (case req_user req of
        None \<Rightarrow> Rejected TypeError
      | Some u \<Rightarrow>
          if role u \<notin> set roles
          then NextError (AppError ''You do not have permission for this operation '' 403)
          else NextOk req)"

text \<open>The reset URL and the mail of \<^verbatim>\<open>forgotPassword\<close>, lines 156-169.\<close>

definition resetUrl :: "request \<Rightarrow> string \<Rightarrow> string" where
  "resetUrl req resetToken =
     protocol req @ ''://'' @ (case host req of None \<Rightarrow> ''undefined'' | Some h \<Rightarrow> h)
       @ ''/api/v1/users/resetPassword/'' @ resetToken"

definition resetMail :: "request \<Rightarrow> user \<Rightarrow> string \<Rightarrow> mail" where
  "resetMail req u resetToken =
     \<lparr>mail_email = email u,
      subject = '' The reset token (valid for 10 minutes)'',
      responseMessage =
        ''Forgot your password? Patch your new authenticated password to. ''
          @ resetUrl req resetToken @ [CHR 0x0A]
          @ '' You can also ignore the message if you did not forget''\<rparr>"

text \<open>
  \<^verbatim>\<open>forgotPassword\<close>, lines 139-187. \<open>rnd\<close> is the random plaintext that
  \<^verbatim>\<open>createPasswordResetToken\<close> generates in this request.
\<close>

definition forgotPassword :: "collab \<Rightarrow> int \<Rightarrow> string \<Rightarrow> store \<Rightarrow> request \<Rightarrow> store \<times> outcome" where
  "forgotPassword c now rnd s req =
     (case findOne_email s (body_email req) of
        None \<Rightarrow> (s, NextError (AppError ''There is no user of the email address!'' 404))
      | Some u0 \<Rightarrow>
          (case createPasswordResetToken c now rnd u0 of
             (resetToken, u1) \<Rightarrow>
               (case save c now False False u1 s of
                  Inl err \<Rightarrow> (s, Rejected err)
                | Inr (u2, s1) \<Rightarrow>
                    if sendMail c (resetMail req u2 resetToken)
                    then (s1, Sent \<lparr>res_status = 200, res_cookie = None,
                                    json_status = ''success'', json_token = None,
                                    json_message = Some ''Token is sent to email'',
                                    json_user = None\<rparr>)
                    else (case save c now False False
                                 (u2\<lparr>passwordResetToken := None,
                                     passwordResetExpires := None\<rparr>) s1 of
                            Inl err \<Rightarrow> (s1, Rejected err)
                          | Inr (u3, s2) \<Rightarrow>
                              (s2, NextError (AppError
                                 ''There was an error sending the email. Try some time later''
                                 500))))))"

text \<open>\<^verbatim>\<open>resetPassword\<close>, lines 191-221.\<close>

definition resetPassword :: "collab \<Rightarrow> env \<Rightarrow> int \<Rightarrow> store \<Rightarrow> request \<Rightarrow> store \<times> outcome" where
  "resetPassword c e now s req =
     (let hashedToken = sha256_hex c (param_token req)
      in (case findOne_reset s hashedToken now of
            None \<Rightarrow> (s, NextError (AppError ''The Token is invalid or expired'' 400))
          | Some u0 \<Rightarrow>
              (case save c now True True
                      (u0\<lparr>password := body_password req,
                          confirmPassword := body_confirmPassword req,
                          passwordResetToken := None,
                          passwordResetExpires := None\<rparr>) s of
                 Inl err \<Rightarrow> (s, Rejected err)
               | Inr (u1, s') \<Rightarrow> (s', Sent (createSignedToken c e now u1 200)))))"

text \<open>\<^verbatim>\<open>updatePassword\<close>, lines 223-246.\<close>

definition updatePassword :: "collab \<Rightarrow> env \<Rightarrow> int \<Rightarrow> store \<Rightarrow> request \<Rightarrow> store \<times> outcome" where
  "updatePassword c e now s req =
     (case req_user req of
        None \<Rightarrow> (s, Rejected TypeError)
      | Some ru \<Rightarrow>
          (case findById s (user_id ru) of
             None \<Rightarrow> (s, Rejected TypeError)
           | Some u0 \<Rightarrow>
               if \<not> correctPassword c (body_currentPassword req) (password u0)
               then (s, NextError (AppError ''Incorrect password'' 401))
               else (case save c now True True
                            (u0\<lparr>password := body_password req,
                                confirmPassword := body_confirmPassword req\<rparr>) s of
                       Inl err \<Rightarrow> (s, Rejected err)
                     | Inr (u1, s') \<Rightarrow> (s', Sent (createSignedToken c e now u1 200)))))"

text \<open>The status code with which a handler fails through \<^verbatim>\<open>next(new AppError(...))\<close>.\<close>

definition failStatus :: "outcome \<Rightarrow> nat option" where
  "failStatus r = (case r of NextError err \<Rightarrow> Some (statusCode err) | _ \<Rightarrow> None)"

section \<open>Concrete collaborators, stores and requests\<close>

definition demoCollab :: collab where
  "demoCollab =
     \<lparr>jwt_sign = (\<lambda>i secret expiresIn now. secret @ replicate i CHR ''x''),
      jwt_verify = (\<lambda>token secret now.
         if token = ''good'' then Inr \<lparr>dec_id = 1, iat = 100\<rparr>
         else if token = ''old'' then Inl TokenExpiredError
         else Inl JsonWebTokenError),
      sha256_hex = (\<lambda>t. ''#'' @ t),
      correctPassword = (\<lambda>candidate stored.
         (case candidate of None \<Rightarrow> False | Some p \<Rightarrow> stored = Some (''h:'' @ p))),
      hashCredential = (\<lambda>p. ''h:'' @ p),
      validate = (\<lambda>u. password u \<noteq> None \<and> password u = confirmPassword u),
      sendMail = (\<lambda>m. mail_email m \<noteq> Some ''bounce@x.com'')\<rparr>"

definition demoEnv :: env where
  "demoEnv = \<lparr>JWT_SECRET = ''k'', JWT_EXPIRES_IN = ''90d'',
              JWT_COOKIE_EXPIRES_IN = 90, NODE_ENV = ''development''\<rparr>"

definition ana :: user where
  "ana = \<lparr>user_id = 1, name = Some ''Ana'', email = Some ''ana@x.com'',
          role = Some ''standard'', password = Some ''h:secret12'',
          confirmPassword = None, passwordChangedAt = 50,
          passwordResetToken = None, passwordResetExpires = None\<rparr>"

definition bob :: user where
  "bob = \<lparr>user_id = 2, name = Some ''Bob'', email = Some ''bounce@x.com'',
          role = Some ''standard'', password = Some ''h:hunter22'',
          confirmPassword = None, passwordChangedAt = 60,
          passwordResetToken = None, passwordResetExpires = None\<rparr>"

definition emptyReq :: request where
  "emptyReq = \<lparr>body_name = None, body_email = None, body_password = None,
               body_confirmPassword = None, body_role = None,
               body_currentPassword = None, authorization = None,
               param_token = [], protocol = ''https'', host = Some ''x.com'',
               req_user = None\<rparr>"

definition unknownLogin :: request where
  "unknownLogin = emptyReq\<lparr>body_email := Some ''zoe@x.com'', body_password := Some ''secret12''\<rparr>"

definition wrongLogin :: request where
  "wrongLogin = emptyReq\<lparr>body_email := Some ''ana@x.com'', body_password := Some ''wrong''\<rparr>"

definition noPasswordLogin :: request where
  "noPasswordLogin = emptyReq\<lparr>body_email := Some ''ana@x.com''\<rparr>"

definition noEmailLogin :: request where
  "noEmailLogin = emptyReq\<lparr>body_password := Some ''secret12''\<rparr>"

definition anaChanged :: user where
  "anaChanged = ana\<lparr>passwordChangedAt := 150\<rparr>"

definition goodReq :: request where
  "goodReq = emptyReq\<lparr>authorization := Some ''Bearer good''\<rparr>"

definition badReq :: request where
  "badReq = emptyReq\<lparr>authorization := Some ''Bearer forged''\<rparr>"

definition expiredReq :: request where
  "expiredReq = emptyReq\<lparr>authorization := Some ''Bearer old''\<rparr>"

definition anaReset :: user where
  "anaReset = ana\<lparr>passwordResetToken := Some ''#tok'', passwordResetExpires := Some 600000\<rparr>"

definition resetReq :: request where
  "resetReq = emptyReq\<lparr>param_token := ''tok'', body_password := Some ''newpass1'',
                        body_confirmPassword := Some ''newpass1''\<rparr>"

definition forgotAna :: request where
  "forgotAna = emptyReq\<lparr>body_email := Some ''ana@x.com''\<rparr>"

definition forgotBob :: request where
  "forgotBob = emptyReq\<lparr>body_email := Some ''bounce@x.com''\<rparr>"

definition signupReq :: request where
  "signupReq = emptyReq\<lparr>body_name := Some ''Zoe'', body_email := Some ''zoe@x.com'',
                         body_password := Some ''secret12'',
                         body_confirmPassword := Some ''secret12''\<rparr>"

section \<open>Login\<close>

text \<open>
  C1. For every login request carrying a non-empty email and password, the run in which
  no identity has that email and the run in which an identity exists but the password
  does not verify end in the same failure: the same \<open>AppError\<close>, with status 401 and
  the same message. The two runs may differ in everything else (store, request, time,
  configuration).
\<close>

theorem login_same_failure_for_unknown_email_and_wrong_password:
  assumes "\<not> falsy (body_email req1)" and "\<not> falsy (body_password req1)"
    and "\<not> falsy (body_email req2)" and "\<not> falsy (body_password req2)"
    and "findOne_email s1 (body_email req1) = None"
    and "findOne_email s2 (body_email req2) = Some u"
    and "\<not> correctPassword c2 (body_password req2) (password u)"
  shows "login c1 e1 now1 s1 req1 = NextError (AppError '' Incorrect email or password'' 401)
       \<and> login c2 e2 now2 s2 req2 = login c1 e1 now1 s1 req1"
  using assms by (simp add: login_def)

theorem login_same_failure_witness:
  "login demoCollab demoEnv 7 [ana] unknownLogin
     = NextError (AppError '' Incorrect email or password'' 401)
   \<and> login demoCollab demoEnv 9 [ana, bob] wrongLogin
     = login demoCollab demoEnv 7 [ana] unknownLogin"
proof -
  have a: "\<not> falsy (body_email unknownLogin)" "\<not> falsy (body_password unknownLogin)"
    "\<not> falsy (body_email wrongLogin)" "\<not> falsy (body_password wrongLogin)"
    by (simp_all add: falsy_def unknownLogin_def wrongLogin_def emptyReq_def)
  have b: "findOne_email [ana] (body_email unknownLogin) = None"
    by (simp add: findOne_email_def unknownLogin_def emptyReq_def ana_def)
  have c: "findOne_email [ana, bob] (body_email wrongLogin) = Some ana"
    by (simp add: findOne_email_def wrongLogin_def emptyReq_def ana_def)
  have d: "\<not> correctPassword demoCollab (body_password wrongLogin) (password ana)"
    by (simp add: demoCollab_def wrongLogin_def emptyReq_def ana_def)
  show ?thesis
    by (rule login_same_failure_for_unknown_email_and_wrong_password [OF a b c d])
qed

text \<open>
  C8, as stated: a login request in which the email or the password is absent fails
  with the unauthorized status 401. It does not: a request without an email fails with
  another status.
\<close>

theorem login_missing_field_status_counterexample:
  "failStatus (login demoCollab demoEnv 7 [ana] noEmailLogin) \<noteq> Some 401"
  by (simp add: failStatus_def login_def falsy_def noEmailLogin_def emptyReq_def)

text \<open>
  C8, amended. For every login request in which the email or the password is absent
  (or empty), login fails with the \<open>AppError\<close> "Enter both password and email" carrying
  status 400, before any identity is looked up. Status 401 is used only for
  identity-not-found and password mismatch: login fails with status 401 exactly when
  both fields are present and either no identity has the email or the password does not
  verify against the identity found.
\<close>

theorem login_missing_field_is_bad_request:
  "(falsy (body_email req) \<or> falsy (body_password req) \<longrightarrow>
      login c e now s req = NextError (AppError ''Enter both password and email'' 400)
      \<and> failStatus (login c e now s req) = Some 400)
   \<and> ((failStatus (login c e now s req) = Some 401)
        = (\<not> falsy (body_email req) \<and> \<not> falsy (body_password req)
           \<and> (findOne_email s (body_email req) = None
              \<or> (\<exists>u. findOne_email s (body_email req) = Some u
                    \<and> \<not> correctPassword c (body_password req) (password u)))))"
  by (auto simp: login_def failStatus_def split: option.splits)

theorem login_missing_field_witness:
  "login demoCollab demoEnv 7 [ana] noPasswordLogin
     = NextError (AppError ''Enter both password and email'' 400)
   \<and> failStatus (login demoCollab demoEnv 7 [ana] noPasswordLogin) = Some 400
   \<and> failStatus (login demoCollab demoEnv 7 [ana] noPasswordLogin) \<noteq> Some 401
   \<and> failStatus (login demoCollab demoEnv 7 [ana] wrongLogin) = Some 401
   \<and> failStatus (login demoCollab demoEnv 7 [ana] unknownLogin) = Some 401"
proof -
  note t1 = login_missing_field_is_bad_request [of noPasswordLogin demoCollab demoEnv 7 "[ana]"]
  note t2 = login_missing_field_is_bad_request [of wrongLogin demoCollab demoEnv 7 "[ana]"]
  note t3 = login_missing_field_is_bad_request [of unknownLogin demoCollab demoEnv 7 "[ana]"]
  have a: "falsy (body_password noPasswordLogin)"
    by (simp add: falsy_def noPasswordLogin_def emptyReq_def)
  have b: "\<not> falsy (body_email wrongLogin)" "\<not> falsy (body_password wrongLogin)"
    "\<not> falsy (body_email unknownLogin)" "\<not> falsy (body_password unknownLogin)"
    by (simp_all add: falsy_def wrongLogin_def unknownLogin_def emptyReq_def)
  have f: "findOne_email [ana] (body_email wrongLogin) = Some ana"
    by (simp add: findOne_email_def wrongLogin_def emptyReq_def ana_def)
  have w: "\<not> correctPassword demoCollab (body_password wrongLogin) (password ana)"
    by (simp add: demoCollab_def wrongLogin_def emptyReq_def ana_def)
  have g: "findOne_email [ana] (body_email unknownLogin) = None"
    by (simp add: findOne_email_def unknownLogin_def emptyReq_def ana_def)
  have 1: "login demoCollab demoEnv 7 [ana] noPasswordLogin
             = NextError (AppError ''Enter both password and email'' 400)
           \<and> failStatus (login demoCollab demoEnv 7 [ana] noPasswordLogin) = Some 400"
    using t1 a by blast
  have 2: "failStatus (login demoCollab demoEnv 7 [ana] noPasswordLogin) \<noteq> Some 401"
    using t1 a by blast
  have 3: "failStatus (login demoCollab demoEnv 7 [ana] wrongLogin) = Some 401"
    using t2 b f w by blast
  have 4: "failStatus (login demoCollab demoEnv 7 [ana] unknownLogin) = Some 401"
    using t3 b g by blast
  show ?thesis using 1 2 3 4 by blast
qed

section \<open>The access gate\<close>

lemma bearerToken_goodReq: "bearerToken goodReq = Some ''good''"
  by (simp add: bearerToken_def goodReq_def emptyReq_def startsWith_def at_index_def)

text \<open>
  C2. A protected request is never authorized with a stale session. Let the request carry
  a token that \<^verbatim>\<open>jwt.verify\<close> accepts, decoded to an identity id and an issuance time
  \<open>iat d\<close>, and let the identity of that id have a credential-changed timestamp later
  than the issuance time. Then \<open>protect\<close> fails with an \<open>AppError\<close> of status 401 and
  does not call \<^verbatim>\<open>next()\<close>, so the handler behind it is not reached. The staleness test
  itself is the model method \<open>changedPasswordAfter\<close>, modelled from the spec.
\<close>

theorem protect_rejects_stale_session:
  assumes "bearerToken req = Some token" and "token \<noteq> []"
    and "jwt_verify c token (JWT_SECRET e) now = Inr d"
    and "findById s (dec_id d) = Some u"
    and "iat d < passwordChangedAt u"
  shows "protect c e now s req = NextError (AppError ''The user changed his/her ID recently!'' 401)
       \<and> failStatus (protect c e now s req) = Some 401
       \<and> (\<forall>r. protect c e now s req \<noteq> NextOk r)"
  using assms by (simp add: protect_def changedPasswordAfter_def failStatus_def)

theorem protect_rejects_stale_session_witness:
  "protect demoCollab demoEnv 200 [anaChanged] goodReq
     = NextError (AppError ''The user changed his/her ID recently!'' 401)
   \<and> failStatus (protect demoCollab demoEnv 200 [anaChanged] goodReq) = Some 401
   \<and> (\<forall>r. protect demoCollab demoEnv 200 [anaChanged] goodReq \<noteq> NextOk r)"
proof -
  have a: "''good'' \<noteq> []" by simp
  have b: "jwt_verify demoCollab ''good'' (JWT_SECRET demoEnv) 200 = Inr \<lparr>dec_id = 1, iat = 100\<rparr>"
    by (simp add: demoCollab_def)
  have c: "findById [anaChanged] (dec_id \<lparr>dec_id = 1, iat = 100\<rparr>) = Some anaChanged"
    by (simp add: findById_def anaChanged_def ana_def)
  have d: "iat \<lparr>dec_id = 1, iat = 100\<rparr> < passwordChangedAt anaChanged"
    by (simp add: anaChanged_def)
  show ?thesis
    by (rule protect_rejects_stale_session [OF bearerToken_goodReq a b c d])
qed

text \<open>
  C7. The claim: when the token of a protected request fails verification (bad signature,
  malformed, or expired), \<open>protect\<close> fails with an \<open>AppError\<close> of status 401. The code
  awaits \<^verbatim>\<open>jwt.verify\<close> with no handler around it (line 101, under a \<^verbatim>\<open>TODO\<close>
  comment), so the body rejects with the library's own error, which carries no status
  code; the three other failures of \<open>protect\<close> are \<open>AppError\<close>s of status 401. Evaluated
  at a forged token and at an expired one.
\<close>

theorem protect_verification_failure_is_not_an_AppError:
  "protect demoCollab demoEnv 200 [ana] badReq = Rejected JsonWebTokenError
   \<and> protect demoCollab demoEnv 200 [ana] expiredReq = Rejected TokenExpiredError
   \<and> failStatus (protect demoCollab demoEnv 200 [ana] badReq) = None
   \<and> failStatus (protect demoCollab demoEnv 200 [ana] expiredReq) = None"
  by (simp add: protect_def bearerToken_def badReq_def expiredReq_def emptyReq_def
      startsWith_def at_index_def demoCollab_def failStatus_def)

text \<open>
  C9. For every protected request, \<open>protect\<close> goes through its stages in order.
  Extraction: an absent authorization header, one that does not start with "Bearer", and
  one with no token after the first blank all fail with an \<open>AppError\<close> of status 401,
  whatever the later stages would say. Verification: with a token extracted, a failing
  \<^verbatim>\<open>jwt.verify\<close> ends the request before the store is read. Resolution: with the token
  verified, a missing identity of the decoded id fails with status 401. Staleness: with
  the identity resolved, a credential change after issuance fails with status 401.
  Only when all four stages succeed does \<open>protect\<close> attach the resolved identity to the
  request and call \<^verbatim>\<open>next()\<close>; and whenever it calls \<^verbatim>\<open>next()\<close>, all four
  succeeded and the request it passes on is the incoming one with that identity attached.
\<close>

theorem protect_stages_in_order:
  "((authorization req = None \<or> (\<exists>a. authorization req = Some a \<and> \<not> startsWith a ''Bearer''))
      \<longrightarrow> protect c e now s req
          = NextError (AppError ''You are not logged in. Confirm Passwords are the same'' 401))
   \<and> (falsy (bearerToken req) \<longrightarrow>
        protect c e now s req
          = NextError (AppError ''You are not logged in. Confirm Passwords are the same'' 401))
   \<and> (\<forall>token. bearerToken req = Some token \<and> token \<noteq> [] \<longrightarrow>
        (\<forall>err. jwt_verify c token (JWT_SECRET e) now = Inl err \<longrightarrow>
           protect c e now s req = Rejected err)
      \<and> (\<forall>d. jwt_verify c token (JWT_SECRET e) now = Inr d \<longrightarrow>
           (findById s (dec_id d) = None \<longrightarrow>
              protect c e now s req
                = NextError (AppError ''The user by this ID no longer exists'' 401))
         \<and> (\<forall>u. findById s (dec_id d) = Some u \<longrightarrow>
              (changedPasswordAfter u (iat d) \<longrightarrow>
                 protect c e now s req
                   = NextError (AppError ''The user changed his/her ID recently!'' 401))
            \<and> (\<not> changedPasswordAfter u (iat d) \<longrightarrow>
                 protect c e now s req = NextOk (req\<lparr>req_user := Some u\<rparr>)))))
   \<and> (\<forall>r. protect c e now s req = NextOk r \<longrightarrow>
        (\<exists>token d u. bearerToken req = Some token \<and> token \<noteq> []
           \<and> jwt_verify c token (JWT_SECRET e) now = Inr d
           \<and> findById s (dec_id d) = Some u
           \<and> \<not> changedPasswordAfter u (iat d)
           \<and> r = req\<lparr>req_user := Some u\<rparr>))"
proof (intro conjI)
  show "(authorization req = None \<or> (\<exists>a. authorization req = Some a \<and> \<not> startsWith a ''Bearer''))
      \<longrightarrow> protect c e now s req
          = NextError (AppError ''You are not logged in. Confirm Passwords are the same'' 401)"
    by (auto simp: protect_def bearerToken_def)
  show "falsy (bearerToken req) \<longrightarrow>
        protect c e now s req
          = NextError (AppError ''You are not logged in. Confirm Passwords are the same'' 401)"
    by (auto simp: protect_def falsy_def split: option.splits)
  show "\<forall>token. bearerToken req = Some token \<and> token \<noteq> [] \<longrightarrow>
        (\<forall>err. jwt_verify c token (JWT_SECRET e) now = Inl err \<longrightarrow>
           protect c e now s req = Rejected err)
      \<and> (\<forall>d. jwt_verify c token (JWT_SECRET e) now = Inr d \<longrightarrow>
           (findById s (dec_id d) = None \<longrightarrow>
              protect c e now s req
                = NextError (AppError ''The user by this ID no longer exists'' 401))
         \<and> (\<forall>u. findById s (dec_id d) = Some u \<longrightarrow>
              (changedPasswordAfter u (iat d) \<longrightarrow>
                 protect c e now s req
                   = NextError (AppError ''The user changed his/her ID recently!'' 401))
            \<and> (\<not> changedPasswordAfter u (iat d) \<longrightarrow>
                 protect c e now s req = NextOk (req\<lparr>req_user := Some u\<rparr>))))"
    by (simp add: protect_def)
  show "\<forall>r. protect c e now s req = NextOk r \<longrightarrow>
        (\<exists>token d u. bearerToken req = Some token \<and> token \<noteq> []
           \<and> jwt_verify c token (JWT_SECRET e) now = Inr d
           \<and> findById s (dec_id d) = Some u
           \<and> \<not> changedPasswordAfter u (iat d)
           \<and> r = req\<lparr>req_user := Some u\<rparr>)"
    by (auto simp: protect_def split: option.splits if_splits sum.splits)
qed

theorem protect_stages_in_order_witness:
  "protect demoCollab demoEnv 200 [ana] emptyReq
     = NextError (AppError ''You are not logged in. Confirm Passwords are the same'' 401)
   \<and> protect demoCollab demoEnv 200 [ana] goodReq = NextOk (goodReq\<lparr>req_user := Some ana\<rparr>)
   \<and> protect demoCollab demoEnv 200 [bob] goodReq
     = NextError (AppError ''The user by this ID no longer exists'' 401)"
proof -
  note t1 = protect_stages_in_order [of emptyReq demoCollab demoEnv 200 "[ana]"]
  note t2 = protect_stages_in_order [of goodReq demoCollab demoEnv 200 "[ana]"]
  note t3 = protect_stages_in_order [of goodReq demoCollab demoEnv 200 "[bob]"]
  have a: "authorization emptyReq = None" by (simp add: emptyReq_def)
  have b: "''good'' \<noteq> []" by simp
  have v: "jwt_verify demoCollab ''good'' (JWT_SECRET demoEnv) 200 = Inr \<lparr>dec_id = 1, iat = 100\<rparr>"
    by (simp add: demoCollab_def)
  have f: "findById [ana] (dec_id \<lparr>dec_id = 1, iat = 100\<rparr>) = Some ana"
    by (simp add: findById_def ana_def)
  have g: "findById [bob] (dec_id \<lparr>dec_id = 1, iat = 100\<rparr>) = None"
    by (simp add: findById_def bob_def)
  have h: "\<not> changedPasswordAfter ana (iat \<lparr>dec_id = 1, iat = 100\<rparr>)"
    by (simp add: changedPasswordAfter_def ana_def)
  have 1: "protect demoCollab demoEnv 200 [ana] emptyReq
     = NextError (AppError ''You are not logged in. Confirm Passwords are the same'' 401)"
    using t1 a by (simp add: falsy_def)
  have 2: "protect demoCollab demoEnv 200 [ana] goodReq = NextOk (goodReq\<lparr>req_user := Some ana\<rparr>)"
    using t2 bearerToken_goodReq b v f h by blast
  have 3: "protect demoCollab demoEnv 200 [bob] goodReq
     = NextError (AppError ''The user by this ID no longer exists'' 401)"
    using t3 bearerToken_goodReq b v g by blast
  show ?thesis using 1 2 3 by blast
qed

section \<open>The password-reset handshake\<close>

lemma findOne_reset_None:
  "(findOne_reset s h now = None)
     = (\<not> (\<exists>u\<in>set s. passwordResetToken u = Some h \<and> (\<exists>x. passwordResetExpires u = Some x \<and> now < x)))"
  by (auto simp: findOne_reset_def find_None_iff resetMatch_def split: option.splits)

lemma findOne_reset_Some:
  "findOne_reset s h now = Some u \<Longrightarrow> u \<in> set s \<and> resetMatch h now u"
  by (auto simp: findOne_reset_def find_Some_iff)

lemma resetPassword_outcome:
  "snd (resetPassword c e now s req) = NextError (AppError ''The Token is invalid or expired'' 400)
   \<or> (\<exists>r. snd (resetPassword c e now s req) = Sent r \<and> res_status r = 200)
   \<or> snd (resetPassword c e now s req) = Rejected ValidationError"
  by (auto simp: resetPassword_def Let_def save_def createSignedToken_def split: option.splits)

lemma resetPassword_invalid_iff:
  "(snd (resetPassword c e now s req) = NextError (AppError ''The Token is invalid or expired'' 400))
     = (findOne_reset s (sha256_hex c (param_token req)) now = None)"
  by (auto simp: resetPassword_def Let_def save_def split: option.splits)

lemma resetPassword_found:
  assumes "findOne_reset s (sha256_hex c (param_token req)) now = Some u0"
  shows "(validate c (u0\<lparr>password := body_password req,
                         confirmPassword := body_confirmPassword req,
                         passwordResetToken := None,
                         passwordResetExpires := None\<rparr>) \<longrightarrow>
            (\<exists>r u1. resetPassword c e now s req
                      = (map (\<lambda>v. if user_id v = user_id u0 then u1 else v) s, Sent r)
               \<and> res_status r = 200
               \<and> r = createSignedToken c e now u1 200
               \<and> user_id u1 = user_id u0
               \<and> password u1 = map_option (hashCredential c) (body_password req)
               \<and> passwordResetToken u1 = None \<and> passwordResetExpires u1 = None))
       \<and> (\<not> validate c (u0\<lparr>password := body_password req,
                             confirmPassword := body_confirmPassword req,
                             passwordResetToken := None,
                             passwordResetExpires := None\<rparr>) \<longrightarrow>
            resetPassword c e now s req = (s, Rejected ValidationError))"
proof (intro conjI impI)
  let ?u = "u0\<lparr>password := body_password req,
                 confirmPassword := body_confirmPassword req,
                 passwordResetToken := None, passwordResetExpires := None\<rparr>"
  let ?u1 = "?u\<lparr>password := map_option (hashCredential c) (password ?u),
                 passwordChangedAt := now\<rparr>"
  assume "validate c ?u"
  with assms have "resetPassword c e now s req
      = (map (\<lambda>v. if user_id v = user_id u0 then ?u1 else v) s,
         Sent (createSignedToken c e now ?u1 200))
    \<and> res_status (createSignedToken c e now ?u1 200) = 200
    \<and> createSignedToken c e now ?u1 200 = createSignedToken c e now ?u1 200
    \<and> user_id ?u1 = user_id u0
    \<and> password ?u1 = map_option (hashCredential c) (body_password req)
    \<and> passwordResetToken ?u1 = None \<and> passwordResetExpires ?u1 = None"
    by (simp add: resetPassword_def save_def Let_def createSignedToken_def)
  then show "\<exists>r u1. resetPassword c e now s req
                      = (map (\<lambda>v. if user_id v = user_id u0 then u1 else v) s, Sent r)
               \<and> res_status r = 200
               \<and> r = createSignedToken c e now u1 200
               \<and> user_id u1 = user_id u0
               \<and> password u1 = map_option (hashCredential c) (body_password req)
               \<and> passwordResetToken u1 = None \<and> passwordResetExpires u1 = None"
    by blast
next
  assume "\<not> validate c (u0\<lparr>password := body_password req,
                             confirmPassword := body_confirmPassword req,
                             passwordResetToken := None,
                             passwordResetExpires := None\<rparr>)"
  with assms show "resetPassword c e now s req = (s, Rejected ValidationError)"
    by (simp add: resetPassword_def save_def)
qed

lemma resetPassword_invalid_store:
  "findOne_reset s (sha256_hex c (param_token req)) now = None \<Longrightarrow>
   resetPassword c e now s req = (s, NextError (AppError ''The Token is invalid or expired'' 400))"
  by (simp add: resetPassword_def)

text \<open>
  C3. \<open>resetPassword\<close> fails with the \<open>AppError\<close> "The Token is invalid or expired" of
  status 400 exactly when no identity exists whose stored reset digest equals the hash of
  the plaintext token and whose reset expiry is strictly in the future. Both conditions
  are one lookup with one error, whichever of them failed. Hence a token whose expiry is
  \<open>N\<close> minutes after \<open>t0\<close> is accepted at \<open>N - 1\<close> minutes: the lookup returns an
  identity, and the request goes on to the save; when the store's field validation
  passes the document with the new password, the answer is the session response of
  status 200 for that identity and the identity is persisted, and when it refuses, the
  save throws and the store is unchanged. No other identity holding the digest with
  another expiry, the token is rejected at \<open>N + 1\<close> minutes with the store unchanged.
\<close>

theorem resetPassword_invalid_token_exactly_when_no_live_digest:
  "((snd (resetPassword c e now s req) = NextError (AppError ''The Token is invalid or expired'' 400))
      = (\<not> (\<exists>u\<in>set s. passwordResetToken u = Some (sha256_hex c (param_token req))
              \<and> (\<exists>x. passwordResetExpires u = Some x \<and> now < x))))
   \<and> (\<forall>u t0 N. u \<in> set s \<and> passwordResetToken u = Some (sha256_hex c (param_token req))
          \<and> passwordResetExpires u = Some (t0 + N * 60000) \<longrightarrow>
        snd (resetPassword c e (t0 + (N - 1) * 60000) s req)
          \<noteq> NextError (AppError ''The Token is invalid or expired'' 400)
        \<and> ((\<exists>r. snd (resetPassword c e (t0 + (N - 1) * 60000) s req) = Sent r \<and> res_status r = 200)
           \<or> snd (resetPassword c e (t0 + (N - 1) * 60000) s req) = Rejected ValidationError)
        \<and> (\<exists>u0. findOne_reset s (sha256_hex c (param_token req)) (t0 + (N - 1) * 60000) = Some u0
              \<and> (validate c (u0\<lparr>password := body_password req,
                                 confirmPassword := body_confirmPassword req,
                                 passwordResetToken := None,
                                 passwordResetExpires := None\<rparr>) \<longrightarrow>
                  (\<exists>r u1. resetPassword c e (t0 + (N - 1) * 60000) s req
                            = (map (\<lambda>v. if user_id v = user_id u0 then u1 else v) s, Sent r)
                     \<and> res_status r = 200
                     \<and> r = createSignedToken c e (t0 + (N - 1) * 60000) u1 200
                     \<and> user_id u1 = user_id u0
                     \<and> password u1 = map_option (hashCredential c) (body_password req)
                     \<and> passwordResetToken u1 = None \<and> passwordResetExpires u1 = None))
              \<and> (\<not> validate c (u0\<lparr>password := body_password req,
                                   confirmPassword := body_confirmPassword req,
                                   passwordResetToken := None,
                                   passwordResetExpires := None\<rparr>) \<longrightarrow>
                  resetPassword c e (t0 + (N - 1) * 60000) s req
                    = (s, Rejected ValidationError))))
   \<and> (\<forall>t0 N. (\<forall>u\<in>set s. passwordResetToken u = Some (sha256_hex c (param_token req))
                 \<longrightarrow> passwordResetExpires u = Some (t0 + N * 60000)) \<longrightarrow>
        resetPassword c e (t0 + (N + 1) * 60000) s req
          = (s, NextError (AppError ''The Token is invalid or expired'' 400)))"
proof (intro conjI allI impI)
  show "(snd (resetPassword c e now s req) = NextError (AppError ''The Token is invalid or expired'' 400))
      = (\<not> (\<exists>u\<in>set s. passwordResetToken u = Some (sha256_hex c (param_token req))
              \<and> (\<exists>x. passwordResetExpires u = Some x \<and> now < x)))"
    by (simp only: resetPassword_invalid_iff findOne_reset_None)
next
  fix u :: user and t0 N :: int
  assume a: "u \<in> set s \<and> passwordResetToken u = Some (sha256_hex c (param_token req))
          \<and> passwordResetExpires u = Some (t0 + N * 60000)"
  have "t0 + (N - 1) * 60000 < t0 + N * 60000" by simp
  with a have "findOne_reset s (sha256_hex c (param_token req)) (t0 + (N - 1) * 60000) \<noteq> None"
    unfolding findOne_reset_None by blast
  then obtain u0 where
    f: "findOne_reset s (sha256_hex c (param_token req)) (t0 + (N - 1) * 60000) = Some u0"
    by blast
  from resetPassword_found [OF f, of e]
  show "\<exists>u0. findOne_reset s (sha256_hex c (param_token req)) (t0 + (N - 1) * 60000) = Some u0
              \<and> (validate c (u0\<lparr>password := body_password req,
                                 confirmPassword := body_confirmPassword req,
                                 passwordResetToken := None,
                                 passwordResetExpires := None\<rparr>) \<longrightarrow>
                  (\<exists>r u1. resetPassword c e (t0 + (N - 1) * 60000) s req
                            = (map (\<lambda>v. if user_id v = user_id u0 then u1 else v) s, Sent r)
                     \<and> res_status r = 200
                     \<and> r = createSignedToken c e (t0 + (N - 1) * 60000) u1 200
                     \<and> user_id u1 = user_id u0
                     \<and> password u1 = map_option (hashCredential c) (body_password req)
                     \<and> passwordResetToken u1 = None \<and> passwordResetExpires u1 = None))
              \<and> (\<not> validate c (u0\<lparr>password := body_password req,
                                   confirmPassword := body_confirmPassword req,
                                   passwordResetToken := None,
                                   passwordResetExpires := None\<rparr>) \<longrightarrow>
                  resetPassword c e (t0 + (N - 1) * 60000) s req
                    = (s, Rejected ValidationError))"
    using f by blast
  from f show n: "snd (resetPassword c e (t0 + (N - 1) * 60000) s req)
          \<noteq> NextError (AppError ''The Token is invalid or expired'' 400)"
    by (simp add: resetPassword_invalid_iff)
  with resetPassword_outcome [of c e "t0 + (N - 1) * 60000" s req]
  show "(\<exists>r. snd (resetPassword c e (t0 + (N - 1) * 60000) s req) = Sent r \<and> res_status r = 200)
           \<or> snd (resetPassword c e (t0 + (N - 1) * 60000) s req) = Rejected ValidationError"
    by blast
next
  fix t0 N :: int
  assume a: "\<forall>u\<in>set s. passwordResetToken u = Some (sha256_hex c (param_token req))
                 \<longrightarrow> passwordResetExpires u = Some (t0 + N * 60000)"
  have "\<not> (t0 + (N + 1) * 60000 < t0 + N * 60000)" by simp
  with a have "findOne_reset s (sha256_hex c (param_token req)) (t0 + (N + 1) * 60000) = None"
    unfolding findOne_reset_None by auto
  then show "resetPassword c e (t0 + (N + 1) * 60000) s req
          = (s, NextError (AppError ''The Token is invalid or expired'' 400))"
    by (rule resetPassword_invalid_store)
qed

theorem resetPassword_invalid_token_witness:
  "snd (resetPassword demoCollab demoEnv 540000 [anaReset, bob] resetReq)
     \<noteq> NextError (AppError ''The Token is invalid or expired'' 400)
   \<and> (\<exists>r u1. resetPassword demoCollab demoEnv 540000 [anaReset, bob] resetReq
                = ([u1, bob], Sent r)
         \<and> res_status r = 200 \<and> user_id u1 = user_id anaReset
         \<and> password u1 = Some ''h:newpass1''
         \<and> passwordResetToken u1 = None \<and> passwordResetExpires u1 = None)
   \<and> resetPassword demoCollab demoEnv 660000 [anaReset, bob] resetReq
     = ([anaReset, bob], NextError (AppError ''The Token is invalid or expired'' 400))"
proof -
  note t = resetPassword_invalid_token_exactly_when_no_live_digest
             [of demoCollab demoEnv 0 "[anaReset, bob]" resetReq]
  have p: "anaReset \<in> set [anaReset, bob]
         \<and> passwordResetToken anaReset = Some (sha256_hex demoCollab (param_token resetReq))
         \<and> passwordResetExpires anaReset = Some (0 + 10 * 60000)"
    by (simp add: anaReset_def demoCollab_def resetReq_def emptyReq_def)
  have q: "\<forall>u\<in>set [anaReset, bob].
             passwordResetToken u = Some (sha256_hex demoCollab (param_token resetReq))
             \<longrightarrow> passwordResetExpires u = Some (0 + 10 * 60000)"
    by (simp add: anaReset_def bob_def demoCollab_def resetReq_def emptyReq_def)
  from t p have "snd (resetPassword demoCollab demoEnv (0 + (10 - 1) * 60000) [anaReset, bob] resetReq)
     \<noteq> NextError (AppError ''The Token is invalid or expired'' 400)"
    by blast
  then have 1: "snd (resetPassword demoCollab demoEnv 540000 [anaReset, bob] resetReq)
     \<noteq> NextError (AppError ''The Token is invalid or expired'' 400)"
    by simp
  from t q have "resetPassword demoCollab demoEnv (0 + (10 + 1) * 60000) [anaReset, bob] resetReq
     = ([anaReset, bob], NextError (AppError ''The Token is invalid or expired'' 400))"
    by blast
  then have 2: "resetPassword demoCollab demoEnv 660000 [anaReset, bob] resetReq
     = ([anaReset, bob], NextError (AppError ''The Token is invalid or expired'' 400))"
    by simp
  have h: "sha256_hex demoCollab (param_token resetReq) = ''#tok''"
    by (simp add: demoCollab_def resetReq_def emptyReq_def)
  have f: "findOne_reset [anaReset, bob] ''#tok'' 540000 = Some anaReset"
    by (simp add: findOne_reset_def resetMatch_def anaReset_def)
  have v: "validate demoCollab (anaReset\<lparr>password := body_password resetReq,
                                confirmPassword := body_confirmPassword resetReq,
                                passwordResetToken := None,
                                passwordResetExpires := None\<rparr>)"
    by (simp add: demoCollab_def resetReq_def emptyReq_def)
  have m: "\<And>u1. map (\<lambda>v. if user_id v = user_id anaReset then u1 else v) [anaReset, bob]
                  = [u1, bob]"
    by (simp add: anaReset_def ana_def bob_def)
  have b: "map_option (hashCredential demoCollab) (body_password resetReq) = Some ''h:newpass1''"
    by (simp add: demoCollab_def resetReq_def emptyReq_def)
  from t p have "\<exists>u0. findOne_reset [anaReset, bob]
                        (sha256_hex demoCollab (param_token resetReq)) (0 + (10 - 1) * 60000)
                      = Some u0
              \<and> (validate demoCollab (u0\<lparr>password := body_password resetReq,
                                 confirmPassword := body_confirmPassword resetReq,
                                 passwordResetToken := None,
                                 passwordResetExpires := None\<rparr>) \<longrightarrow>
                  (\<exists>r u1. resetPassword demoCollab demoEnv (0 + (10 - 1) * 60000)
                              [anaReset, bob] resetReq
                            = (map (\<lambda>v. if user_id v = user_id u0 then u1 else v)
                                 [anaReset, bob], Sent r)
                     \<and> res_status r = 200
                     \<and> r = createSignedToken demoCollab demoEnv (0 + (10 - 1) * 60000) u1 200
                     \<and> user_id u1 = user_id u0
                     \<and> password u1
                         = map_option (hashCredential demoCollab) (body_password resetReq)
                     \<and> passwordResetToken u1 = None \<and> passwordResetExpires u1 = None))"
    by blast
  then have "\<exists>r u1. resetPassword demoCollab demoEnv 540000 [anaReset, bob] resetReq
                      = (map (\<lambda>v. if user_id v = user_id anaReset then u1 else v)
                           [anaReset, bob], Sent r)
                \<and> res_status r = 200 \<and> user_id u1 = user_id anaReset
                \<and> password u1 = Some ''h:newpass1''
                \<and> passwordResetToken u1 = None \<and> passwordResetExpires u1 = None"
    using v by (auto simp: h f b)
  then have 3: "\<exists>r u1. resetPassword demoCollab demoEnv 540000 [anaReset, bob] resetReq
                = ([u1, bob], Sent r)
         \<and> res_status r = 200 \<and> user_id u1 = user_id anaReset
         \<and> password u1 = Some ''h:newpass1''
         \<and> passwordResetToken u1 = None \<and> passwordResetExpires u1 = None"
    unfolding m .
  show ?thesis using 1 2 3 by blast
qed

lemma resetPassword_success:
  assumes "snd (resetPassword c e now s req) = Sent r"
  shows "\<exists>u0 u1. findOne_reset s (sha256_hex c (param_token req)) now = Some u0
           \<and> user_id u1 = user_id u0
           \<and> passwordResetToken u1 = None \<and> passwordResetExpires u1 = None
           \<and> fst (resetPassword c e now s req)
               = map (\<lambda>v. if user_id v = user_id u0 then u1 else v) s
           \<and> r = createSignedToken c e now u1 200"
proof (cases "findOne_reset s (sha256_hex c (param_token req)) now")
  case None
  with assms show ?thesis by (simp add: resetPassword_def)
next
  case (Some u0)
  let ?u = "u0\<lparr>password := body_password req,
                 confirmPassword := body_confirmPassword req,
                 passwordResetToken := None, passwordResetExpires := None\<rparr>"
  let ?u1 = "?u\<lparr>password := map_option (hashCredential c) (password ?u),
                 passwordChangedAt := now\<rparr>"
  from assms Some have v: "validate c ?u"
    by (simp add: resetPassword_def save_def split: if_splits)
  then have sv: "save c now True True ?u s
      = Inr (?u1, map (\<lambda>v. if user_id v = user_id ?u1 then ?u1 else v) s)"
    by (simp add: save_def Let_def)
  have "user_id ?u1 = user_id u0 \<and> passwordResetToken ?u1 = None
        \<and> passwordResetExpires ?u1 = None
        \<and> fst (resetPassword c e now s req)
               = map (\<lambda>v. if user_id v = user_id u0 then ?u1 else v) s
        \<and> r = createSignedToken c e now ?u1 200"
    using assms Some sv by (simp add: resetPassword_def)
  with Some show ?thesis by blast
qed

text \<open>
  C4. A reset token is single-use. A successful \<open>resetPassword\<close> clears the reset digest
  and the reset expiry of the identity before persisting it: the stored document of the
  identity in the response holds neither. The digest being held by one identity only (the
  plaintext is random), no stored document holds the digest afterwards, and a second
  \<open>resetPassword\<close> with the same plaintext token, at any time and with any new password,
  fails with the \<open>AppError\<close> "The Token is invalid or expired" of status 400.
\<close>

theorem resetPassword_token_is_single_use:
  assumes first: "snd (resetPassword c e now s req) = Sent r"
    and uniq: "\<forall>v\<in>set s. \<forall>w\<in>set s.
                 passwordResetToken v = Some (sha256_hex c (param_token req))
                 \<and> passwordResetToken w = Some (sha256_hex c (param_token req))
                 \<longrightarrow> user_id v = user_id w"
    and same: "param_token req' = param_token req"
  shows "(\<exists>v\<in>set (fst (resetPassword c e now s req)).
            Some (user_id v) = map_option user_id (json_user r))
       \<and> (\<forall>v\<in>set (fst (resetPassword c e now s req)).
            Some (user_id v) = map_option user_id (json_user r) \<longrightarrow>
            passwordResetToken v = None \<and> passwordResetExpires v = None)
       \<and> (\<forall>v\<in>set (fst (resetPassword c e now s req)).
            passwordResetToken v \<noteq> Some (sha256_hex c (param_token req)))
       \<and> resetPassword c e' now' (fst (resetPassword c e now s req)) req'
           = (fst (resetPassword c e now s req),
              NextError (AppError ''The Token is invalid or expired'' 400))"
proof -
  let ?h = "sha256_hex c (param_token req)"
  let ?s' = "fst (resetPassword c e now s req)"
  from resetPassword_success [OF first] obtain u0 u1 where
    f: "findOne_reset s ?h now = Some u0"
    and u1: "user_id u1 = user_id u0" "passwordResetToken u1 = None"
            "passwordResetExpires u1 = None"
    and s': "?s' = map (\<lambda>v. if user_id v = user_id u0 then u1 else v) s"
    and r: "r = createSignedToken c e now u1 200"
    by blast
  from findOne_reset_Some [OF f] have u0: "u0 \<in> set s" "passwordResetToken u0 = Some ?h"
    by (simp_all add: resetMatch_def)
  have ju: "map_option user_id (json_user r) = Some (user_id u0)"
    by (simp add: r u1 createSignedToken_def Let_def)
  have ex: "\<exists>v\<in>set ?s'. Some (user_id v) = map_option user_id (json_user r)"
  proof -
    from u0(1) have "u1 \<in> set ?s'" unfolding s' by force
    then show ?thesis unfolding ju using u1(1) by force
  qed
  have cl: "\<forall>v\<in>set ?s'. Some (user_id v) = map_option user_id (json_user r) \<longrightarrow>
            passwordResetToken v = None \<and> passwordResetExpires v = None"
    unfolding ju s' by (auto simp: u1)
  have no: "\<forall>v\<in>set ?s'. passwordResetToken v \<noteq> Some ?h"
  proof
    fix v assume "v \<in> set ?s'"
    then obtain w where w: "w \<in> set s" "v = (if user_id w = user_id u0 then u1 else w)"
      unfolding s' by auto
    show "passwordResetToken v \<noteq> Some ?h"
    proof (cases "user_id w = user_id u0")
      case True
      with w show ?thesis by (simp add: u1)
    next
      case False
      with uniq w(1) u0 have "passwordResetToken w \<noteq> Some ?h" by blast
      with False w show ?thesis by simp
    qed
  qed
  then have "findOne_reset ?s' (sha256_hex c (param_token req')) now' = None"
    unfolding findOne_reset_None same by blast
  then have "resetPassword c e' now' ?s' req'
           = (?s', NextError (AppError ''The Token is invalid or expired'' 400))"
    by (rule resetPassword_invalid_store)
  with ex cl no show ?thesis by blast
qed

theorem resetPassword_token_is_single_use_witness:
  "(\<exists>r. snd (resetPassword demoCollab demoEnv 540000 [anaReset, bob] resetReq) = Sent r)
   \<and> resetPassword demoCollab demoEnv 550000
         (fst (resetPassword demoCollab demoEnv 540000 [anaReset, bob] resetReq)) resetReq
       = (fst (resetPassword demoCollab demoEnv 540000 [anaReset, bob] resetReq),
          NextError (AppError ''The Token is invalid or expired'' 400))"
proof -
  have "\<exists>r. snd (resetPassword demoCollab demoEnv 540000 [anaReset, bob] resetReq) = Sent r"
    by (simp add: resetPassword_def findOne_reset_def resetMatch_def save_def anaReset_def
        ana_def bob_def resetReq_def emptyReq_def demoCollab_def Let_def)
  then obtain r where
    first: "snd (resetPassword demoCollab demoEnv 540000 [anaReset, bob] resetReq) = Sent r" ..
  have uniq: "\<forall>v\<in>set [anaReset, bob]. \<forall>w\<in>set [anaReset, bob].
                passwordResetToken v = Some (sha256_hex demoCollab (param_token resetReq))
                \<and> passwordResetToken w = Some (sha256_hex demoCollab (param_token resetReq))
                \<longrightarrow> user_id v = user_id w"
    by (simp add: anaReset_def ana_def bob_def)
  from resetPassword_token_is_single_use [OF first uniq refl, of demoEnv 550000] first
  show ?thesis by blast
qed

lemma findOne_email_Some:
  "findOne_email s x = Some u \<Longrightarrow> u \<in> set s"
  by (auto simp: findOne_email_def find_Some_iff split: option.splits)

text \<open>
  C5. For every forgot-password request that found an identity and stored a reset digest
  and expiry, if the notifier call fails, \<open>forgotPassword\<close> clears the stored digest and
  expiry, persists the identity again, and then fails with the \<open>AppError\<close> of status 500.
  The collection it leaves is the original one with the reset fields of that identity
  cleared, so the record does not hold a digest for a plaintext that was never delivered.
\<close>

theorem forgotPassword_delivery_failure_clears_token:
  assumes found: "findOne_email s (body_email req) = Some u"
    and fails: "\<not> sendMail c (resetMail req (snd (createPasswordResetToken c now rnd u)) rnd)"
  shows "forgotPassword c now rnd s req
           = (map (\<lambda>v. if user_id v = user_id u
                        then u\<lparr>passwordResetToken := None, passwordResetExpires := None\<rparr>
                        else v) s,
              NextError (AppError ''There was an error sending the email. Try some time later'' 500))
       \<and> (\<exists>v\<in>set (fst (forgotPassword c now rnd s req)). user_id v = user_id u)
       \<and> (\<forall>v\<in>set (fst (forgotPassword c now rnd s req)).
            user_id v = user_id u \<longrightarrow>
            passwordResetToken v = None \<and> passwordResetExpires v = None)"
proof -
  let ?u0 = "u\<lparr>passwordResetToken := None, passwordResetExpires := None\<rparr>"
  let ?s' = "map (\<lambda>v. if user_id v = user_id u then ?u0 else v) s"
  have 1: "forgotPassword c now rnd s req
           = (?s', NextError (AppError ''There was an error sending the email. Try some time later'' 500))"
    using found fails
    by (simp add: forgotPassword_def createPasswordResetToken_def save_def Let_def comp_def
        cong: if_cong)
  from findOne_email_Some [OF found] have "?u0 \<in> set ?s'" by force
  then have 2: "\<exists>v\<in>set ?s'. user_id v = user_id u" by (rule rev_bexI) simp
  have 3: "\<forall>v\<in>set ?s'. user_id v = user_id u \<longrightarrow>
            passwordResetToken v = None \<and> passwordResetExpires v = None"
    by auto
  show ?thesis using 2 3 unfolding 1 by simp
qed

theorem forgotPassword_delivery_failure_witness:
  "forgotPassword demoCollab 1000 ''t1'' [ana, bob] forgotBob
     = ([ana, bob],
        NextError (AppError ''There was an error sending the email. Try some time later'' 500))"
proof -
  have found: "findOne_email [ana, bob] (body_email forgotBob) = Some bob"
    by (simp add: findOne_email_def forgotBob_def emptyReq_def ana_def bob_def)
  have fails: "\<not> sendMail demoCollab
      (resetMail forgotBob (snd (createPasswordResetToken demoCollab 1000 ''t1'' bob)) ''t1'')"
    by (simp add: demoCollab_def resetMail_def createPasswordResetToken_def bob_def)
  have m: "map (\<lambda>v. if user_id v = user_id bob
                        then bob\<lparr>passwordResetToken := None, passwordResetExpires := None\<rparr>
                        else v) [ana, bob] = [ana, bob]"
    by (simp add: ana_def bob_def)
  from forgotPassword_delivery_failure_clears_token [OF found fails]
  show ?thesis unfolding m by blast
qed

text \<open>
  C10. The success response of \<open>forgotPassword\<close> is a fixed body, status "success" and
  the message "Token is sent to email", under HTTP status 200, with no cookie, token or
  user: any two runs that answer, whatever plaintext tokens were generated in them (and
  whatever else differs), answer identically.
\<close>

theorem forgotPassword_response_independent_of_token:
  assumes "snd (forgotPassword c1 now1 rnd1 s1 req1) = Sent r1"
    and "snd (forgotPassword c2 now2 rnd2 s2 req2) = Sent r2"
  shows "r1 = r2
       \<and> r1 = \<lparr>res_status = 200, res_cookie = None, json_status = ''success'',
                json_token = None, json_message = Some ''Token is sent to email'',
                json_user = None\<rparr>"
  using assms
  by (auto simp: forgotPassword_def createPasswordResetToken_def save_def Let_def
      split: option.splits if_splits)

theorem forgotPassword_response_witness:
  "snd (forgotPassword demoCollab 1000 ''t1'' [ana, bob] forgotAna)
     = snd (forgotPassword demoCollab 2000 ''another'' [ana, bob] forgotAna)
   \<and> snd (forgotPassword demoCollab 1000 ''t1'' [ana, bob] forgotAna)
     = Sent \<lparr>res_status = 200, res_cookie = None, json_status = ''success'',
             json_token = None, json_message = Some ''Token is sent to email'',
             json_user = None\<rparr>"
proof -
  have "\<exists>r. snd (forgotPassword demoCollab 1000 ''t1'' [ana, bob] forgotAna) = Sent r"
    by (simp add: forgotPassword_def findOne_email_def createPasswordResetToken_def save_def
        resetMail_def forgotAna_def emptyReq_def ana_def demoCollab_def Let_def)
  then obtain r1 where
    a: "snd (forgotPassword demoCollab 1000 ''t1'' [ana, bob] forgotAna) = Sent r1" ..
  have "\<exists>r. snd (forgotPassword demoCollab 2000 ''another'' [ana, bob] forgotAna) = Sent r"
    by (simp add: forgotPassword_def findOne_email_def createPasswordResetToken_def save_def
        resetMail_def forgotAna_def emptyReq_def ana_def demoCollab_def Let_def)
  then obtain r2 where
    b: "snd (forgotPassword demoCollab 2000 ''another'' [ana, bob] forgotAna) = Sent r2" ..
  from forgotPassword_response_independent_of_token [OF a b]
  have "r1 = r2" and "r1 = \<lparr>res_status = 200, res_cookie = None, json_status = ''success'',
             json_token = None, json_message = Some ''Token is sent to email'',
             json_user = None\<rparr>"
    by blast+
  with a b show ?thesis by metis
qed

section \<open>Session issuance\<close>

lemma createSignedToken_fields:
  "json_token (createSignedToken c e now u code) = Some (signToken c e now (user_id u))"
  "json_user (createSignedToken c e now u code) = Some (u\<lparr>password := None\<rparr>)"
  "map_option cookie_value (res_cookie (createSignedToken c e now u code))
     = Some (signToken c e now (user_id u))"
  by (simp_all add: createSignedToken_def Let_def)

lemma signup_sent:
  assumes "snd (signup c e now newId s req) = Sent r"
  shows "\<exists>u. user_id u = newId \<and> fst (signup c e now newId s req) = s @ [u]
           \<and> r = createSignedToken c e now u 201"
  using assms
  by (auto simp: signup_def create_def Let_def split: if_splits)

lemma login_sent:
  assumes "login c e now s req = Sent r"
  shows "\<exists>u. r = createSignedToken c e now u 200"
  using assms
  by (auto simp: login_def split: if_splits option.splits)

lemma resetPassword_sent:
  assumes "snd (resetPassword c e now s req) = Sent r"
  shows "\<exists>u. r = createSignedToken c e now u 200"
  using assms
  by (auto simp: resetPassword_def Let_def save_def split: if_splits option.splits)

lemma updatePassword_sent:
  assumes "snd (updatePassword c e now s req) = Sent r"
  shows "\<exists>u. r = createSignedToken c e now u 200"
  using assms
  by (auto simp: updatePassword_def Let_def save_def split: if_splits option.splits)

text \<open>
  C6. Every response that carries a session artifact is built by \<open>createSignedToken\<close>:
  its token is \<^verbatim>\<open>jwt.sign\<close> of the id of the very user document in the body, and that
  document has its password field removed. This holds for every successful signup, where
  the user in the body is moreover the newly created identity of the store (up to the
  removed password), and for every successful login, password reset and password update.
\<close>

theorem session_token_encodes_response_user_and_password_is_stripped:
  "(json_token (createSignedToken c e now u code) = Some (signToken c e now (user_id u))
    \<and> json_user (createSignedToken c e now u code) = Some (u\<lparr>password := None\<rparr>)
    \<and> signToken c e now (user_id u) = jwt_sign c (user_id u) (JWT_SECRET e) (JWT_EXPIRES_IN e) now)
   \<and> (\<forall>r. snd (signup c e now newId s req) = Sent r \<longrightarrow>
        (\<exists>v. json_user r = Some v \<and> password v = None \<and> user_id v = newId
           \<and> json_token r = Some (signToken c e now (user_id v))
           \<and> (\<exists>w\<in>set (fst (signup c e now newId s req)). w\<lparr>password := None\<rparr> = v)))
   \<and> (\<forall>r. login c e now s req = Sent r \<longrightarrow>
        (\<exists>v. json_user r = Some v \<and> password v = None
           \<and> json_token r = Some (signToken c e now (user_id v))))
   \<and> (\<forall>r. snd (resetPassword c e now s req) = Sent r \<longrightarrow>
        (\<exists>v. json_user r = Some v \<and> password v = None
           \<and> json_token r = Some (signToken c e now (user_id v))))
   \<and> (\<forall>r. snd (updatePassword c e now s req) = Sent r \<longrightarrow>
        (\<exists>v. json_user r = Some v \<and> password v = None
           \<and> json_token r = Some (signToken c e now (user_id v))))"
proof (intro conjI allI impI)
  show "json_token (createSignedToken c e now u code) = Some (signToken c e now (user_id u))"
    and "json_user (createSignedToken c e now u code) = Some (u\<lparr>password := None\<rparr>)"
    by (rule createSignedToken_fields)+
  show "signToken c e now (user_id u) = jwt_sign c (user_id u) (JWT_SECRET e) (JWT_EXPIRES_IN e) now"
    by (simp add: signToken_def)
next
  fix r assume "snd (signup c e now newId s req) = Sent r"
  from signup_sent [OF this] obtain w where
    w: "user_id w = newId" "fst (signup c e now newId s req) = s @ [w]"
       "r = createSignedToken c e now w 201"
    by blast
  have "json_user r = Some (w\<lparr>password := None\<rparr>) \<and> password (w\<lparr>password := None\<rparr>) = None
        \<and> user_id (w\<lparr>password := None\<rparr>) = newId
        \<and> json_token r = Some (signToken c e now (user_id (w\<lparr>password := None\<rparr>)))
        \<and> w \<in> set (fst (signup c e now newId s req))"
    by (simp add: w createSignedToken_fields)
  then show "\<exists>v. json_user r = Some v \<and> password v = None \<and> user_id v = newId
           \<and> json_token r = Some (signToken c e now (user_id v))
           \<and> (\<exists>w\<in>set (fst (signup c e now newId s req)). w\<lparr>password := None\<rparr> = v)"
    by blast
next
  fix r assume "login c e now s req = Sent r"
  from login_sent [OF this] obtain w where "r = createSignedToken c e now w 200" ..
  then have "json_user r = Some (w\<lparr>password := None\<rparr>) \<and> password (w\<lparr>password := None\<rparr>) = None
        \<and> json_token r = Some (signToken c e now (user_id (w\<lparr>password := None\<rparr>)))"
    by (simp add: createSignedToken_fields)
  then show "\<exists>v. json_user r = Some v \<and> password v = None
           \<and> json_token r = Some (signToken c e now (user_id v))"
    by blast
next
  fix r assume "snd (resetPassword c e now s req) = Sent r"
  from resetPassword_sent [OF this] obtain w where "r = createSignedToken c e now w 200" ..
  then have "json_user r = Some (w\<lparr>password := None\<rparr>) \<and> password (w\<lparr>password := None\<rparr>) = None
        \<and> json_token r = Some (signToken c e now (user_id (w\<lparr>password := None\<rparr>)))"
    by (simp add: createSignedToken_fields)
  then show "\<exists>v. json_user r = Some v \<and> password v = None
           \<and> json_token r = Some (signToken c e now (user_id v))"
    by blast
next
  fix r assume "snd (updatePassword c e now s req) = Sent r"
  from updatePassword_sent [OF this] obtain w where "r = createSignedToken c e now w 200" ..
  then have "json_user r = Some (w\<lparr>password := None\<rparr>) \<and> password (w\<lparr>password := None\<rparr>) = None
        \<and> json_token r = Some (signToken c e now (user_id (w\<lparr>password := None\<rparr>)))"
    by (simp add: createSignedToken_fields)
  then show "\<exists>v. json_user r = Some v \<and> password v = None
           \<and> json_token r = Some (signToken c e now (user_id v))"
    by blast
qed

theorem session_token_witness:
  "\<exists>r v. snd (signup demoCollab demoEnv 7 3 [ana] signupReq) = Sent r
     \<and> json_user r = Some v \<and> password v = None \<and> user_id v = 3
     \<and> json_token r = Some (signToken demoCollab demoEnv 7 (user_id v))"
proof -
  have "\<exists>r. snd (signup demoCollab demoEnv 7 3 [ana] signupReq) = Sent r"
    by (simp add: signup_def create_def Let_def signupReq_def emptyReq_def ana_def demoCollab_def)
  then obtain r where a: "snd (signup demoCollab demoEnv 7 3 [ana] signupReq) = Sent r" ..
  with session_token_encodes_response_user_and_password_is_stripped
         [of demoCollab demoEnv 7 ana 200 3 "[ana]" signupReq]
  show ?thesis by blast
qed

end
